theory Spec2Isabelle
  imports Complex_Main "HOL-Library.Sublist"
begin

section \<open>Python values used by the agents\<close>

text \<open>
  Python floats are modelled as the real numbers they denote: rounding is not modelled.
  A timestamp is a number of seconds.  A dictionary literal is an association list in the
  order of the literal; \<open>d.get(k, default)\<close> is \<open>dict_get\<close> and \<open>d[k]\<close> is \<open>dict_item\<close>.
\<close>

type_synonym datetime = real

text \<open>
  The exceptions that the modelled code can raise.  \<open>TypeError\<close> stands for the failure of
  an operation on an object of the wrong kind.
\<close>

datatype py_error = ZeroDivisionError | AttributeError | TypeError

definition dict_get :: "('k \<times> 'v) list \<Rightarrow> 'k \<Rightarrow> 'v \<Rightarrow> 'v" where
  "dict_get d k dflt = (case map_of d k of Some v \<Rightarrow> v | None \<Rightarrow> dflt)"

definition dict_item :: "('k \<times> 'v) list \<Rightarrow> 'k \<Rightarrow> 'v" where
  \<comment> \<open>\<open>d[k]\<close>; only applied to keys of the literal table, where it cannot raise.\<close>
  "dict_item d k = the (map_of d k)"

definition opt_get :: "'v option \<Rightarrow> 'v \<Rightarrow> 'v" where
  \<comment> \<open>\<open>outcomes.get(key, default)\<close> for one fixed key of the outcomes dictionary.\<close>
  "opt_get entry dflt = (case entry of Some v \<Rightarrow> v | None \<Rightarrow> dflt)"

definition py_truediv :: "real \<Rightarrow> real \<Rightarrow> py_error + real" where
  "py_truediv a b = (if b = 0 then Inl ZeroDivisionError else Inr (a / b))"

definition py_slice_to :: "int \<Rightarrow> 'a list \<Rightarrow> 'a list" where
  \<comment> \<open>\<open>xs[:n]\<close>: a negative bound counts from the end of the list.\<close>
  "py_slice_to n xs =
     (if 0 \<le> n then take (nat n) xs else take (length xs - nat (- n)) xs)"

definition py_sort_reverse :: "('a \<Rightarrow> real) \<Rightarrow> 'a list \<Rightarrow> 'a list" where
  \<comment> \<open>\<open>xs.sort(key=key, reverse=True)\<close> and \<open>sorted(xs, key=key, reverse=True)\<close>: descending
      by key; Python keeps elements with equal keys in their original order.\<close>
  "py_sort_reverse key xs = sort_key (\<lambda>x. - key x) xs"

fun lower_char :: "char \<Rightarrow> char" where
  "lower_char c =
     (let n = (of_char c :: nat) in if 65 \<le> n \<and> n \<le> 90 then char_of (n + 32) else c)"

definition lower :: "string \<Rightarrow> string" where
  \<comment> \<open>\<open>str.lower()\<close> on ASCII text.\<close>
  "lower s = map lower_char s"

section \<open>Configuration (config.py)\<close>

datatype ImpactArea = EDUCATION | HEALTHCARE | ENVIRONMENT | POVERTY | EQUALITY | DISASTER_RELIEF

datatype UrgencyLevel = LOW | MEDIUM | HIGH | CRITICAL

fun ImpactArea_value :: "ImpactArea \<Rightarrow> string" where
  "ImpactArea_value EDUCATION = ''education''"
| "ImpactArea_value HEALTHCARE = ''healthcare''"
| "ImpactArea_value ENVIRONMENT = ''environment''"
| "ImpactArea_value POVERTY = ''poverty''"
| "ImpactArea_value EQUALITY = ''equality''"
| "ImpactArea_value DISASTER_RELIEF = ''disaster_relief''"

fun UrgencyLevel_value :: "UrgencyLevel \<Rightarrow> int" where
  "UrgencyLevel_value LOW = 1"
| "UrgencyLevel_value MEDIUM = 2"
| "UrgencyLevel_value HIGH = 3"
| "UrgencyLevel_value CRITICAL = 4"

text \<open>
  A key of a dictionary that is looked up with values of more than one Python type.  A
  member of the plain \<open>Enum\<close> class \<open>ImpactArea\<close> is not equal to its string value, so the
  two kinds of key are different constructors.
\<close>

datatype py_key = PyStr string | PyImpactArea ImpactArea

definition MATCHING_WEIGHTS :: "(string \<times> real) list" where
  "MATCHING_WEIGHTS =
     [(''skills'', 0.4), (''location'', 0.2), (''interests'', 0.15),
      (''urgency'', 0.1), (''experience'', 0.1), (''availability'', 0.05)]"

definition IMPACT_MULTIPLIERS :: "(py_key \<times> real) list" where
  "IMPACT_MULTIPLIERS =
     [(PyStr ''disaster_relief'', 2.0), (PyStr ''healthcare'', 1.5),
      (PyStr ''education'', 1.3), (PyStr ''poverty'', 1.4),
      (PyStr ''environment'', 1.2), (PyStr ''equality'', 1.3)]"

definition MAX_RECOMMENDATIONS :: int where
  "MAX_RECOMMENDATIONS = 5"

definition MIN_MATCH_SCORE :: real where
  "MIN_MATCH_SCORE = 0.3"

section \<open>Records (agent.py)\<close>

record Volunteer =
  vol_id :: string
  vol_name :: string
  vol_skills :: "string list"
  vol_location :: string
  vol_availability :: "(string \<times> bool) list"
  vol_interests :: "ImpactArea list"
  vol_experience_level :: string
  vol_languages :: "string list"
  vol_max_hours_per_week :: int
  vol_email :: string
  vol_phone :: "string option"
  vol_created_at :: datetime

record Opportunity =
  opp_id :: string
  opp_title :: string
  opp_organization :: string
  opp_description :: string
  opp_required_skills :: "string list"
  opp_location :: string
  opp_impact_area :: ImpactArea
  opp_urgency :: UrgencyLevel
  opp_timeframe :: "(string \<times> datetime) list"
  opp_volunteers_needed :: int
  opp_resources_required :: "(string \<times> int) list"
  opp_created_at :: datetime

record MatchResult =
  volunteer :: Volunteer
  opportunity :: Opportunity
  match_score :: real
  reasoning :: "string list"
  confidence :: real

definition calculate_proximity :: "string \<Rightarrow> string \<Rightarrow> int" where
  \<comment> \<open>\<open>SocialGoodOrchestrator._calculate_proximity\<close>\<close>
  "calculate_proximity loc1 loc2 = (if lower loc1 = lower loc2 then 0 else 25)"

definition calculate_distance :: "string \<Rightarrow> string \<Rightarrow> real" where
  \<comment> \<open>\<open>LocationService.calculate_distance\<close> (tools.py)\<close>
  "calculate_distance loc1 loc2 = (if lower loc1 = lower loc2 then 0.0 else 25.0)"

section \<open>Utilities (agent.utils.py)\<close>

definition calculate_urgency_multiplier :: "UrgencyLevel \<Rightarrow> real" where
  "calculate_urgency_multiplier urgency_level =
     (let multipliers = [(LOW, 0.5), (MEDIUM, 1.0), (HIGH, 1.5), (CRITICAL, 2.0)]
      in dict_get multipliers urgency_level 1.0)"

definition AgentUtils_calculate_impact_score :: "real \<Rightarrow> real \<Rightarrow> real \<Rightarrow> real" where
  "AgentUtils_calculate_impact_score people_helped hours_contributed quality_rating =
     (let base_score = min (people_helped * 0.1) 0.4;
          time_score = min (hours_contributed * quality_rating * 0.05) 0.3
      in base_score + time_score)"

section \<open>MatchingAgent (matching_agent.py)\<close>

definition calculate_skill_match :: "(string \<times> real) list \<Rightarrow> string list \<Rightarrow> string list \<Rightarrow> real" where
  \<comment> \<open>The first argument is \<open>self.skill_weights\<close>.\<close>
  "calculate_skill_match skill_weights volunteer_skills required_skills =
     (if required_skills = [] then 0.5
      else
        let matched_skills = set volunteer_skills \<inter> set required_skills in
        if matched_skills = {} then 0.0
        else
          let total_weight = (\<Sum>skill\<in>matched_skills. dict_get skill_weights skill 1.0);
              max_possible = (\<Sum>skill\<leftarrow>required_skills. dict_get skill_weights skill 1.0)
          in total_weight / max_possible)"

definition calculate_experience_score :: "string \<Rightarrow> real" where
  "calculate_experience_score experience_level =
     (let levels = [(''beginner'', 0.3), (''intermediate'', 0.7), (''expert'', 1.0)]
      in dict_get levels experience_level 0.5)"

definition calculate_availability_match :: "(string \<times> bool) list \<Rightarrow> (string \<times> datetime) list \<Rightarrow> real" where
  "calculate_availability_match availability timeframe =
     (if list_ex (\<lambda>b. b) (map snd availability) then 0.8 else 0.2)"

definition calculate_compatibility :: "Volunteer \<Rightarrow> Opportunity \<Rightarrow> real \<times> string list \<times> real" where
  \<comment> \<open>\<open>self.skill_weights\<close> of a \<open>MatchingAgent\<close> is \<open>AgentConfig.MATCHING_WEIGHTS\<close>.\<close>
  "calculate_compatibility v opp =
     (let skill_weights = MATCHING_WEIGHTS;
          score = 0.0;
          reasoning = [];
          max_score = 0.0;
          skill_score = calculate_skill_match skill_weights (vol_skills v) (opp_required_skills opp);
          score = score + skill_score * dict_item skill_weights ''skills'';
          max_score = max_score + dict_item skill_weights ''skills'';
          reasoning = (if skill_score > 0.6 then reasoning @ [''Strong skill alignment''] else reasoning);
          location_score = (if vol_location v = opp_location opp then 1.0 else 0.3);
          score = score + location_score * dict_item skill_weights ''location'';
          max_score = max_score + dict_item skill_weights ''location'';
          reasoning = (if location_score = 1.0 then reasoning @ [''Perfect location match''] else reasoning);
          interest_score = (if opp_impact_area opp \<in> set (vol_interests v) then 1.0 else 0.2);
          score = score + interest_score * dict_item skill_weights ''interests'';
          max_score = max_score + dict_item skill_weights ''interests'';
          reasoning = (if interest_score = 1.0 then reasoning @ [''Matches interests''] else reasoning);
          urgency_score = real_of_int (UrgencyLevel_value (opp_urgency opp)) * 0.25;
          score = score + min urgency_score (dict_item skill_weights ''urgency'');
          max_score = max_score + dict_item skill_weights ''urgency'';
          reasoning = (if UrgencyLevel_value (opp_urgency opp) \<ge> 3
                       then reasoning @ [''High urgency need''] else reasoning);
          exp_score = calculate_experience_score (vol_experience_level v);
          score = score + exp_score * dict_item skill_weights ''experience'';
          max_score = max_score + dict_item skill_weights ''experience'';
          avail_score = calculate_availability_match (vol_availability v) (opp_timeframe opp);
          score = score + avail_score * dict_item skill_weights ''availability'';
          max_score = max_score + dict_item skill_weights ''availability'';
          normalized_score = (if max_score > 0 then score / max_score else 0);
          confidence = min (normalized_score * 1.2) 1.0
      in (normalized_score, reasoning, confidence))"

text \<open>
  The location and interest sub-scores, as \<open>_calculate_compatibility\<close> computes them in
  line, named so that they can be referred to.
\<close>

definition location_score :: "Volunteer \<Rightarrow> Opportunity \<Rightarrow> real" where
  "location_score v opp = (if vol_location v = opp_location opp then 1.0 else 0.3)"

definition interest_score :: "Volunteer \<Rightarrow> Opportunity \<Rightarrow> real" where
  "interest_score v opp = (if opp_impact_area opp \<in> set (vol_interests v) then 1.0 else 0.2)"

fun find_matches_loop :: "Volunteer \<Rightarrow> Opportunity list \<Rightarrow> MatchResult list \<Rightarrow> MatchResult list" where
  "find_matches_loop v [] matches = matches"
| "find_matches_loop v (opp # opportunities) matches =
     (let (score, reasoning, confidence) = calculate_compatibility v opp
      in find_matches_loop v opportunities
           (if score \<ge> MIN_MATCH_SCORE
            then matches @ [\<lparr>volunteer = v, opportunity = opp, match_score = score,
                             reasoning = reasoning, confidence = confidence\<rparr>]
            else matches))"

definition find_matches :: "Volunteer \<Rightarrow> Opportunity list \<Rightarrow> MatchResult list" where
  "find_matches v opportunities =
     (let matches = find_matches_loop v opportunities [];
          matches = py_sort_reverse match_score matches
      in py_slice_to MAX_RECOMMENDATIONS matches)"

fun find_volunteers_loop :: "Opportunity \<Rightarrow> Volunteer list \<Rightarrow> MatchResult list \<Rightarrow> MatchResult list" where
  "find_volunteers_loop opp [] matches = matches"
| "find_volunteers_loop opp (v # volunteers) matches =
     (let (score, reasoning, confidence) = calculate_compatibility v opp
      in find_volunteers_loop opp volunteers
           (if score \<ge> MIN_MATCH_SCORE + 0.1
            then matches @ [\<lparr>volunteer = v, opportunity = opp, match_score = score,
                             reasoning = reasoning, confidence = confidence\<rparr>]
            else matches))"

definition find_volunteers :: "Opportunity \<Rightarrow> Volunteer list \<Rightarrow> MatchResult list" where
  "find_volunteers opp volunteers =
     (let matches = find_volunteers_loop opp volunteers [];
          matches = py_sort_reverse match_score matches
      in py_slice_to (opp_volunteers_needed opp) matches)"





section \<open>ImpactAgent (impact_agent.py)\<close>

text \<open>
  The outcomes dictionary, by the keys the agent reads; \<open>None\<close> is an absent key.
\<close>

record Outcomes =
  people_impacted :: "real option"
  hours_contributed :: "real option"
  quality_rating :: "real option"
  sustainability_score :: "real option"
  feedback :: "(string \<times> string) list option"

definition calculate_impact_score :: "Opportunity \<Rightarrow> Outcomes \<Rightarrow> real" where
  \<comment> \<open>\<open>ImpactAgent._calculate_impact_score\<close>; \<open>self.impact_multipliers\<close> is
      \<open>AgentConfig.IMPACT_MULTIPLIERS\<close>.\<close>
  "calculate_impact_score opp outcomes =
     (let base_score = 0.0;
          people_impacted = opt_get (people_impacted outcomes) 0;
          base_score = base_score + min (people_impacted * 0.1) 0.4;
          hours = opt_get (hours_contributed outcomes) 0;
          quality = opt_get (quality_rating outcomes) 0.5;
          base_score = base_score + (hours * quality * 0.05);
          area_multiplier = dict_get IMPACT_MULTIPLIERS (PyImpactArea (opp_impact_area opp)) 1.0;
          urgency_multiplier = calculate_urgency_multiplier (opp_urgency opp);
          sustainability = opt_get (sustainability_score outcomes) 0.5;
          final_score = base_score * area_multiplier * urgency_multiplier * (1 + sustainability)
      in min final_score 1.0)"

text \<open>The area multiplier of \<open>_calculate_impact_score\<close>, named.\<close>

definition area_multiplier :: "Opportunity \<Rightarrow> real" where
  "area_multiplier opp = dict_get IMPACT_MULTIPLIERS (PyImpactArea (opp_impact_area opp)) 1.0"

text \<open>
  The agent's state is its list \<open>self.completed_projects\<close>.  The two readings of the clock
  (\<open>datetime.now()\<close>) are arguments of \<open>record_completion\<close>, which returns the record
  together with the agent after the call.  The line it writes to the log is left out.
\<close>

record completion_record =
  cr_volunteer_id :: string
  cr_volunteer_name :: string
  cr_opportunity_id :: string
  cr_opportunity_title :: string
  cr_completion_date :: datetime
  cr_hours_contributed :: real
  cr_people_impacted :: real
  cr_quality_rating :: real
  cr_sustainability_score :: real
  cr_impact_score :: real
  cr_feedback :: "(string \<times> string) list"
  cr_calculated_at :: datetime

record ImpactAgent =
  completed_projects :: "completion_record list"

definition record_completion ::
  "datetime \<Rightarrow> datetime \<Rightarrow> ImpactAgent \<Rightarrow> Volunteer \<Rightarrow> Opportunity \<Rightarrow> Outcomes
     \<Rightarrow> completion_record \<times> ImpactAgent" where
  "record_completion now1 now2 self v opp outcomes =
     (let impact_score = calculate_impact_score opp outcomes;
          completion_record =
            \<lparr>cr_volunteer_id = vol_id v,
             cr_volunteer_name = vol_name v,
             cr_opportunity_id = opp_id opp,
             cr_opportunity_title = opp_title opp,
             cr_completion_date = now1,
             cr_hours_contributed = opt_get (hours_contributed outcomes) 0,
             cr_people_impacted = opt_get (people_impacted outcomes) 0,
             cr_quality_rating = opt_get (quality_rating outcomes) 0.5,
             cr_sustainability_score = opt_get (sustainability_score outcomes) 0.5,
             cr_impact_score = impact_score,
             cr_feedback = opt_get (feedback outcomes) [],
             cr_calculated_at = now2\<rparr>
      in (completion_record,
          self\<lparr>completed_projects := completed_projects self @ [completion_record]\<rparr>))"





section \<open>The agents of ai\_agent\_system.py\<close>

subsection \<open>SmartMatchingAgent\<close>

definition SMART_SKILL_WEIGHTS :: "(string \<times> real) list" where
  \<comment> \<open>\<open>self.skill_weights\<close> of a \<open>SmartMatchingAgent\<close>; its \<open>_calculate_skill_match\<close> is
      \<open>calculate_skill_match\<close> with this table.\<close>
  "SMART_SKILL_WEIGHTS =
     [(''technical'', 1.2), (''medical'', 1.3), (''teaching'', 1.1),
      (''construction'', 1.1), (''leadership'', 1.2), (''language'', 1.1)]"

subsection \<open>ResourceOptimizationAgent\<close>

definition impact_multipliers :: "(ImpactArea \<times> real) list" where
  "impact_multipliers =
     [(DISASTER_RELIEF, 2.0), (HEALTHCARE, 1.5), (EDUCATION, 1.3),
      (POVERTY, 1.4), (ENVIRONMENT, 1.2), (EQUALITY, 1.3)]"

record assigned_volunteer =
  av_volunteer_id :: string
  av_match_score :: real
  av_role :: string

record allocation =
  assigned_volunteers :: "assigned_volunteer list"
  resource_distribution :: "(string \<times> int) list"
  expected_impact :: real
  efficiency_score :: real

definition calculate_expected_impact :: "Opportunity \<Rightarrow> MatchResult list \<Rightarrow> py_error + real" where
  "calculate_expected_impact opp volunteers =
     (let base_impact = real_of_int (UrgencyLevel_value (opp_urgency opp)) * 0.25;
          skill_multiplier =
            (if volunteers \<noteq> []
             then py_truediv (\<Sum>v\<leftarrow>volunteers. match_score v) (real (length volunteers))
             else Inr 0);
          area_multiplier = dict_get impact_multipliers (opp_impact_area opp) 1.0
      in case skill_multiplier of
           Inl e \<Rightarrow> Inl e
         | Inr skill_multiplier \<Rightarrow> Inr (base_impact * skill_multiplier * area_multiplier))"

text \<open>
  \<open>allocate_resources\<close> calls two methods, \<open>_assign_role\<close> and \<open>_calculate_efficiency\<close>, that
  the class does not define, and the class has no base class: looking either of them up
  on \<open>self\<close> raises \<open>AttributeError\<close>.  The list comprehension looks \<open>_assign_role\<close> up once
  for each selected candidate, in order.  The argument \<open>volunteers\<close> holds match results, as
  the caller passes them.
\<close>

definition assign_role :: "Volunteer \<Rightarrow> Opportunity \<Rightarrow> py_error + string" where
  \<comment> \<open>\<open>self._assign_role(match.volunteer, opportunity)\<close>\<close>
  "assign_role v opp = Inl AttributeError"

definition calculate_efficiency :: "Opportunity \<Rightarrow> MatchResult list \<Rightarrow> py_error + real" where
  \<comment> \<open>\<open>self._calculate_efficiency(opportunity, sorted_volunteers)\<close>\<close>
  "calculate_efficiency opp volunteers = Inl AttributeError"

fun assign_volunteers :: "Opportunity \<Rightarrow> MatchResult list \<Rightarrow> py_error + assigned_volunteer list" where
  \<comment> \<open>the list comprehension over \<open>sorted_volunteers\<close>\<close>
  "assign_volunteers opp [] = Inr []"
| "assign_volunteers opp (match # sorted_volunteers) =
     (case assign_role (volunteer match) opp of
        Inl e \<Rightarrow> Inl e
      | Inr role \<Rightarrow>
          (case assign_volunteers opp sorted_volunteers of
             Inl e \<Rightarrow> Inl e
           | Inr rest \<Rightarrow>
               Inr (\<lparr>av_volunteer_id = vol_id (volunteer match),
                      av_match_score = match_score match,
                      av_role = role\<rparr> # rest)))"

definition allocate_resources :: "Opportunity \<Rightarrow> MatchResult list \<Rightarrow> py_error + allocation" where
  "allocate_resources opp volunteers =
     (let allocation =
            \<lparr>assigned_volunteers = [], resource_distribution = [],
             expected_impact = 0.0, efficiency_score = 0.0\<rparr>;
          sorted_volunteers =
            py_slice_to (opp_volunteers_needed opp) (py_sort_reverse match_score volunteers)
      in case assign_volunteers opp sorted_volunteers of
           Inl e \<Rightarrow> Inl e
         | Inr assigned \<Rightarrow>
             let allocation = allocation\<lparr>assigned_volunteers := assigned\<rparr>
             in case calculate_expected_impact opp sorted_volunteers of
                  Inl e \<Rightarrow> Inl e
                | Inr impact \<Rightarrow>
                    let allocation = allocation\<lparr>expected_impact := impact\<rparr>
                    in case calculate_efficiency opp sorted_volunteers of
                         Inl e \<Rightarrow> Inl e
                       | Inr efficiency \<Rightarrow>
                           Inr (allocation\<lparr>efficiency_score := efficiency\<rparr>))"

subsection \<open>ImpactTrackingAgent\<close>

record tracking_record =
  tr_volunteer_id :: string
  tr_opportunity_id :: string
  tr_completion_date :: datetime
  tr_hours_contributed :: real
  tr_people_impacted :: real
  tr_impact_score :: real
  tr_feedback :: "(string \<times> string) list"

record ImpactTrackingAgent =
  projects_completed :: int
  total_impact_score :: real
  volunteer_hours_logged :: real

definition tracking_calculate_impact_score :: "Opportunity \<Rightarrow> Outcomes \<Rightarrow> real" where
  \<comment> \<open>\<open>ImpactTrackingAgent._calculate_impact_score\<close>\<close>
  "tracking_calculate_impact_score opp outcomes =
     (let base_score = 0.0;
          people_impacted = opt_get (people_impacted outcomes) 0;
          base_score = base_score + min (people_impacted * 0.1) 0.4;
          hours = opt_get (hours_contributed outcomes) 0;
          quality = opt_get (quality_rating outcomes) 0.5;
          base_score = base_score + (hours * quality * 0.05);
          urgency_multiplier = real_of_int (UrgencyLevel_value (opp_urgency opp)) * 0.25;
          sustainability = opt_get (sustainability_score outcomes) 0.5;
          final_score = base_score * urgency_multiplier * (1 + sustainability)
      in min final_score 1.0)"

definition tracking_record_completion ::
  "datetime \<Rightarrow> ImpactTrackingAgent \<Rightarrow> Volunteer \<Rightarrow> Opportunity \<Rightarrow> Outcomes
     \<Rightarrow> tracking_record \<times> ImpactTrackingAgent" where
  \<comment> \<open>\<open>ImpactTrackingAgent.record_completion\<close>\<close>
  "tracking_record_completion now self v opp outcomes =
     (let impact_score = tracking_calculate_impact_score opp outcomes;
          completion_record =
            \<lparr>tr_volunteer_id = vol_id v,
             tr_opportunity_id = opp_id opp,
             tr_completion_date = now,
             tr_hours_contributed = opt_get (hours_contributed outcomes) 0,
             tr_people_impacted = opt_get (people_impacted outcomes) 0,
             tr_impact_score = impact_score,
             tr_feedback = opt_get (feedback outcomes) []\<rparr>;
          self = self\<lparr>projects_completed := projects_completed self + 1\<rparr>;
          self = self\<lparr>total_impact_score := total_impact_score self + impact_score\<rparr>;
          self = self\<lparr>volunteer_hours_logged :=
                   volunteer_hours_logged self + opt_get (hours_contributed outcomes) 0\<rparr>
      in (completion_record, self))"

section \<open>The operations on mutable objects\<close>




























section \<open>The impact formula of the specification\<close>

text \<open>
  Written from the words of the specification (section 4.4), for comparison with
  \<open>calculate_impact_score\<close>: both base terms are capped, and the area multiplier is the
  entry of the table for the opportunity's impact area.
\<close>

definition spec_area_multiplier :: "ImpactArea \<Rightarrow> real" where
  "spec_area_multiplier a = dict_get IMPACT_MULTIPLIERS (PyStr (ImpactArea_value a)) 1.0"

definition spec_score_completion :: "Opportunity \<Rightarrow> Outcomes \<Rightarrow> real" where
  "spec_score_completion opp outcomes =
     (let base = min (opt_get (people_impacted outcomes) 0 * 0.1) 0.4
                 + min (opt_get (hours_contributed outcomes) 0
                        * opt_get (quality_rating outcomes) 0.5 * 0.05) 0.3;
          final = base * spec_area_multiplier (opp_impact_area opp)
                  * calculate_urgency_multiplier (opp_urgency opp)
                  * (1 + opt_get (sustainability_score outcomes) 0.5)
      in min final 1.0)"

section \<open>Example records\<close>

definition sample_volunteer :: Volunteer where
  "sample_volunteer =
     \<lparr>vol_id = ''vol_002'', vol_name = ''James Wilson'',
      vol_skills = [''teaching'', ''youth_mentoring'', ''sports_coaching''],
      vol_location = ''Suburb Town'',
      vol_availability = [(''weekdays'', False), (''weekends'', True), (''emergency'', False)],
      vol_interests = [EDUCATION, EQUALITY],
      vol_experience_level = ''intermediate'',
      vol_languages = [''English''],
      vol_max_hours_per_week = 10,
      vol_email = ''james@example.org'', vol_phone = None, vol_created_at = 0\<rparr>"

definition sample_opportunity :: Opportunity where
  "sample_opportunity =
     \<lparr>opp_id = ''opp_001'', opp_title = ''Community Health Clinic'',
      opp_organization = ''Metro Health'', opp_description = ''Clinic support'',
      opp_required_skills = [''medical'', ''patient_care''],
      opp_location = ''Metro City'',
      opp_impact_area = HEALTHCARE, opp_urgency = MEDIUM,
      opp_timeframe = [(''start'', 0), (''end'', 604800)],
      opp_volunteers_needed = 3,
      opp_resources_required = [(''medical_kits'', 100)],
      opp_created_at = 0\<rparr>"

definition sample_opportunity_b :: Opportunity where
  "sample_opportunity_b =
     sample_opportunity\<lparr>opp_id := ''opp_002'', opp_title := ''After School Tutoring'',
       opp_required_skills := [''teaching'', ''medical'', ''patient_care'', ''logistics'']\<rparr>"

definition sample_volunteer_lower :: Volunteer where
  "sample_volunteer_lower = sample_volunteer\<lparr>vol_location := ''metro city''\<rparr>"




definition sample_outcomes :: Outcomes where
  "sample_outcomes =
     \<lparr>people_impacted = Some 0, hours_contributed = Some 10, quality_rating = Some 1,
      sustainability_score = Some 0, feedback = None\<rparr>"

definition extreme_outcomes :: Outcomes where
  "extreme_outcomes =
     \<lparr>people_impacted = Some 10000, hours_contributed = Some 1000, quality_rating = Some 1,
      sustainability_score = Some 1, feedback = None\<rparr>"


section \<open>Auxiliary definitions\<close>

text \<open>
  Names used in the proofs only: a table all of whose weights are positive, the weighted
  sum of the six sub-scores, and the match result that both ranking loops build for a
  pair.
\<close>

definition positive_weights :: "(string \<times> real) list \<Rightarrow> bool" where
  "positive_weights w = list_all (\<lambda>kv. 0 < snd kv) w"

definition weighted_sum :: "Volunteer \<Rightarrow> Opportunity \<Rightarrow> real" where
  "weighted_sum v opp =
     calculate_skill_match MATCHING_WEIGHTS (vol_skills v) (opp_required_skills opp) * 0.4
     + location_score v opp * 0.2 + interest_score v opp * 0.15 + 0.1
     + calculate_experience_score (vol_experience_level v) * 0.1
     + calculate_availability_match (vol_availability v) (opp_timeframe opp) * 0.05"

definition match_result :: "Volunteer \<Rightarrow> Opportunity \<Rightarrow> MatchResult" where
  "match_result v opp =
     (let (score, reasoning, confidence) = calculate_compatibility v opp
      in \<lparr>volunteer = v, opportunity = opp, match_score = score,
          reasoning = reasoning, confidence = confidence\<rparr>)"

definition match_result_by ::
  "(Volunteer \<Rightarrow> Opportunity \<Rightarrow> real \<times> string list \<times> real)
     \<Rightarrow> Volunteer \<Rightarrow> Opportunity \<Rightarrow> MatchResult" where
  "match_result_by scoring v opp =
     (let (score, reasoning, confidence) = scoring v opp
      in \<lparr>volunteer = v, opportunity = opp, match_score = score,
          reasoning = reasoning, confidence = confidence\<rparr>)"


section \<open>Facts about the tables and the skill match\<close>

lemma matching_weight_items:
  "dict_item MATCHING_WEIGHTS ''skills'' = 0.4"
  "dict_item MATCHING_WEIGHTS ''location'' = 0.2"
  "dict_item MATCHING_WEIGHTS ''interests'' = 0.15"
  "dict_item MATCHING_WEIGHTS ''urgency'' = 0.1"
  "dict_item MATCHING_WEIGHTS ''experience'' = 0.1"
  "dict_item MATCHING_WEIGHTS ''availability'' = 0.05"
  by (simp_all add: dict_item_def MATCHING_WEIGHTS_def)

lemma urgency_term:
  "min (real_of_int (UrgencyLevel_value u) / 4) (1 / 10 :: real) = 1 / 10"
  by (cases u) simp_all

lemma dict_get_pos:
  "positive_weights w \<Longrightarrow> 0 < dflt \<Longrightarrow> 0 < dict_get w k dflt"
proof (induction w)
  case Nil
  then show ?case by (simp add: dict_get_def)
next
  case (Cons kv w)
  then show ?case
    by (cases kv) (auto simp: dict_get_def positive_weights_def)
qed

lemma positive_MATCHING_WEIGHTS: "positive_weights MATCHING_WEIGHTS"
  by (simp add: positive_weights_def MATCHING_WEIGHTS_def)

lemma positive_SMART_SKILL_WEIGHTS: "positive_weights SMART_SKILL_WEIGHTS"
  by (simp add: positive_weights_def SMART_SKILL_WEIGHTS_def)

lemma sum_set_le_sum_list:
  fixes f :: "'a \<Rightarrow> real"
  assumes "\<And>x. 0 \<le> f x"
  shows "sum f (set xs) \<le> sum_list (map f xs)"
proof (induction xs)
  case Nil
  show ?case by simp
next
  case (Cons x xs)
  show ?case
  proof (cases "x \<in> set xs")
    case True
    then have "insert x (set xs) = set xs" by auto
    with Cons assms [of x] show ?thesis by simp
  next
    case False
    with Cons show ?thesis by simp
  qed
qed

text \<open>The divisor of \<open>_calculate_skill_match\<close> is never zero, so the division cannot raise.\<close>

lemma max_possible_pos:
  assumes "positive_weights w" and "required_skills \<noteq> []"
  shows "0 < (\<Sum>skill\<leftarrow>required_skills. dict_get w skill 1)"
proof -
  have pos: "\<And>s. 0 < dict_get w s 1" using assms(1) by (simp add: dict_get_pos)
  obtain r rs where "required_skills = r # rs" using assms(2) by (cases required_skills) auto
  moreover have "0 \<le> (\<Sum>skill\<leftarrow>rs. dict_get w skill 1)"
    by (rule sum_list_nonneg) (auto simp: less_imp_le pos)
  ultimately show ?thesis using pos [of r] by simp
qed

lemma skill_match_range:
  assumes "positive_weights w"
  shows "0 \<le> calculate_skill_match w vs rs \<and> calculate_skill_match w vs rs \<le> 1"
proof -
  have pos: "\<And>s. 0 < dict_get w s 1" using assms by (simp add: dict_get_pos)
  have nn: "\<And>s. 0 \<le> dict_get w s 1" using pos by (simp add: less_imp_le)
  show ?thesis
  proof (cases "rs = [] \<or> set vs \<inter> set rs = {}")
    case True
    then show ?thesis by (auto simp: calculate_skill_match_def)
  next
    case False
    then have rs: "rs \<noteq> []" and ne: "set vs \<inter> set rs \<noteq> {}" by auto
    let ?t = "\<Sum>skill\<in>set vs \<inter> set rs. dict_get w skill 1"
    let ?m = "\<Sum>skill\<leftarrow>rs. dict_get w skill 1"
    have m: "0 < ?m" using assms rs by (rule max_possible_pos)
    have "?t \<le> sum (\<lambda>s. dict_get w s 1) (set rs)"
      by (rule sum_mono2) (auto simp: nn)
    also have "\<dots> \<le> ?m" by (rule sum_set_le_sum_list) (rule nn)
    finally have le: "?t \<le> ?m" .
    have t: "0 \<le> ?t" by (rule sum_nonneg) (rule nn)
    have eq: "calculate_skill_match w vs rs = ?t / ?m"
      using rs ne by (simp add: calculate_skill_match_def Let_def)
    show ?thesis using m le t by (simp add: eq)
  qed
qed

lemma skill_match_mono:
  assumes "positive_weights w" and sub: "set vs \<subseteq> set vs'"
  shows "calculate_skill_match w vs rs \<le> calculate_skill_match w vs' rs"
proof -
  have pos: "\<And>s. 0 < dict_get w s 1" using assms(1) by (simp add: dict_get_pos)
  have nn: "\<And>s. 0 \<le> dict_get w s 1" using pos by (simp add: less_imp_le)
  show ?thesis
  proof (cases "rs = [] \<or> set vs \<inter> set rs = {}")
    case True
    then show ?thesis
      using skill_match_range [OF assms(1), of vs' rs]
      by (auto simp: calculate_skill_match_def)
  next
    case False
    then have rs: "rs \<noteq> []" and ne: "set vs \<inter> set rs \<noteq> {}" by auto
    have ne': "set vs' \<inter> set rs \<noteq> {}" using ne sub by auto
    let ?t = "\<Sum>skill\<in>set vs \<inter> set rs. dict_get w skill 1"
    let ?t' = "\<Sum>skill\<in>set vs' \<inter> set rs. dict_get w skill 1"
    let ?m = "\<Sum>skill\<leftarrow>rs. dict_get w skill 1"
    have m: "0 < ?m" using assms(1) rs by (rule max_possible_pos)
    have "?t \<le> ?t'" using sub by (intro sum_mono2) (auto simp: nn)
    then have "?t / ?m \<le> ?t' / ?m" using m by (simp add: divide_right_mono)
    then show ?thesis using rs ne ne' by (simp add: calculate_skill_match_def Let_def)
  qed
qed

text \<open>The skill match over lists, for evaluating it on concrete skills.\<close>

lemma skill_match_eval:
  "calculate_skill_match w vs rs =
     (if rs = [] then 0.5
      else if filter (\<lambda>s. s \<in> set rs) vs = [] then 0
      else (\<Sum>skill\<leftarrow>remdups (filter (\<lambda>s. s \<in> set rs) vs). dict_get w skill 1.0)
           / (\<Sum>skill\<leftarrow>rs. dict_get w skill 1.0))"
proof -
  have s: "set vs \<inter> set rs = set (filter (\<lambda>s. s \<in> set rs) vs)" by auto
  have e: "(set vs \<inter> set rs = {}) = (filter (\<lambda>s. s \<in> set rs) vs = [])"
    by (auto simp: filter_empty_conv)
  show ?thesis
    unfolding calculate_skill_match_def Let_def e
    by (simp add: s sum.set_conv_list del: set_filter)
qed

section \<open>The compatibility score in closed form\<close>

lemma compat_score:
  "fst (calculate_compatibility v opp) = weighted_sum v opp"
  by (simp add: calculate_compatibility_def Let_def matching_weight_items urgency_term
      weighted_sum_def location_score_def interest_score_def)

lemma compat_conf:
  "snd (snd (calculate_compatibility v opp)) = min (fst (calculate_compatibility v opp) * 1.2) 1"
  by (simp add: calculate_compatibility_def Let_def matching_weight_items urgency_term)

lemma experience_range:
  "0 \<le> calculate_experience_score e \<and> calculate_experience_score e \<le> 1"
  by (simp add: calculate_experience_score_def dict_get_def)

lemma weighted_sum_range: "0 \<le> weighted_sum v opp \<and> weighted_sum v opp \<le> 1"
proof -
  have s: "0 \<le> calculate_skill_match MATCHING_WEIGHTS (vol_skills v) (opp_required_skills opp)
     \<and> calculate_skill_match MATCHING_WEIGHTS (vol_skills v) (opp_required_skills opp) \<le> 1"
    by (rule skill_match_range) (rule positive_MATCHING_WEIGHTS)
  have l: "0 \<le> location_score v opp \<and> location_score v opp \<le> 1"
    by (simp add: location_score_def)
  have i: "0 \<le> interest_score v opp \<and> interest_score v opp \<le> 1"
    by (simp add: interest_score_def)
  have a: "0 \<le> calculate_availability_match (vol_availability v) (opp_timeframe opp)
     \<and> calculate_availability_match (vol_availability v) (opp_timeframe opp) \<le> 1"
    by (simp add: calculate_availability_match_def)
  note e = experience_range [of "vol_experience_level v"]
  show ?thesis unfolding weighted_sum_def using s l i a e by (simp; linarith)
qed

lemma sample_score: "fst (calculate_compatibility sample_volunteer sample_opportunity) = 3 / 10"
  by (simp add: compat_score weighted_sum_def skill_match_eval location_score_def
      interest_score_def calculate_experience_score_def calculate_availability_match_def
      dict_get_def sample_volunteer_def sample_opportunity_def)

lemma sample_score_b: "fst (calculate_compatibility sample_volunteer sample_opportunity_b) = 4 / 10"
  by (simp add: compat_score weighted_sum_def skill_match_eval location_score_def
      interest_score_def calculate_experience_score_def calculate_availability_match_def
      dict_get_def sample_volunteer_def sample_opportunity_def sample_opportunity_b_def
      MATCHING_WEIGHTS_def)

section \<open>The ranking loops\<close>

lemma find_matches_loop_eq:
  "find_matches_loop v opps acc =
     acc @ map (match_result v) (filter (\<lambda>opp. MIN_MATCH_SCORE \<le> fst (calculate_compatibility v opp)) opps)"
  by (induction opps arbitrary: acc) (auto simp: match_result_def split: prod.splits)

lemma find_volunteers_loop_eq:
  "find_volunteers_loop opp vs acc =
     acc @ map (\<lambda>v. match_result v opp)
       (filter (\<lambda>v. MIN_MATCH_SCORE + 0.1 \<le> fst (calculate_compatibility v opp)) vs)"
  by (induction vs arbitrary: acc) (auto simp: match_result_def split: prod.splits)

lemma match_result_sel [simp]:
  "volunteer (match_result v opp) = v"
  "opportunity (match_result v opp) = opp"
  "match_score (match_result v opp) = fst (calculate_compatibility v opp)"
  by (simp_all add: match_result_def split: prod.splits)

lemma length_py_slice_to: "0 \<le> n \<Longrightarrow> int (length (py_slice_to n xs)) \<le> n"
  by (simp add: py_slice_to_def)


lemma prefix_py_slice_to: "prefix (py_slice_to n xs) xs"
  by (simp add: py_slice_to_def take_is_prefix)

lemma sorted_py_sort_reverse:
  "sorted_wrt (\<lambda>a b. key b \<le> key a) (py_sort_reverse key xs)"
proof -
  have "sorted (map (\<lambda>x. - key x) (sort_key (\<lambda>x. - key x) xs))" by (rule sorted_sort_key)
  then show ?thesis by (simp add: py_sort_reverse_def sorted_wrt_map)
qed

lemma sorted_py_slice_to:
  "sorted_wrt R xs \<Longrightarrow> sorted_wrt R (py_slice_to n xs)"
  by (simp add: py_slice_to_def sorted_wrt_take)

lemma stable_py_sort_reverse:
  "filter (\<lambda>x. key x = k) (py_sort_reverse key xs) = filter (\<lambda>x. key x = k) xs"
proof -
  have "filter (\<lambda>x. - key x = - k) (sort_key (\<lambda>x. - key x) xs) = filter (\<lambda>x. - key x = - k) xs"
    by (rule sort_key_stable)
  then show ?thesis by (simp add: py_sort_reverse_def)
qed

lemma set_py_sort_reverse [simp]: "set (py_sort_reverse key xs) = set xs"
  by (simp add: py_sort_reverse_def)

lemma length_py_sort_reverse [simp]: "length (py_sort_reverse key xs) = length xs"
  by (simp add: py_sort_reverse_def)

lemma ranked_prefix:
  "prefix (filter (\<lambda>x. key x = k) (py_slice_to n (py_sort_reverse key xs)))
          (filter (\<lambda>x. key x = k) xs)"
proof -
  have "prefix (filter (\<lambda>x. key x = k) (py_slice_to n (py_sort_reverse key xs)))
               (filter (\<lambda>x. key x = k) (py_sort_reverse key xs))"
    by (rule filter_mono_prefix) (rule prefix_py_slice_to)
  then show ?thesis by (simp add: stable_py_sort_reverse)
qed

lemma find_matches_stable:
  "prefix (map opportunity (filter (\<lambda>m. match_score m = k) (find_matches v opps)))
          (filter (\<lambda>opp. fst (calculate_compatibility v opp) = k) opps)"
proof -
  let ?ok = "\<lambda>opp. MIN_MATCH_SCORE \<le> fst (calculate_compatibility v opp)"
  let ?eq = "\<lambda>opp. fst (calculate_compatibility v opp) = k"
  have "prefix (filter (\<lambda>m. match_score m = k) (find_matches v opps))
               (filter (\<lambda>m. match_score m = k) (map (match_result v) (filter ?ok opps)))"
    unfolding find_matches_def Let_def find_matches_loop_eq append_Nil by (rule ranked_prefix)
  then have "prefix (map opportunity (filter (\<lambda>m. match_score m = k) (find_matches v opps)))
      (map opportunity (filter (\<lambda>m. match_score m = k) (map (match_result v) (filter ?ok opps))))"
    by (rule map_mono_prefix)
  also have "map opportunity (filter (\<lambda>m. match_score m = k) (map (match_result v) (filter ?ok opps)))
      = filter ?eq (filter ?ok opps)"
    by (simp add: filter_map comp_def)
  also have "\<dots> = filter ?ok (filter ?eq opps)" by (simp add: conj_commute)
  finally have "prefix (map opportunity (filter (\<lambda>m. match_score m = k) (find_matches v opps)))
      (filter ?ok (filter ?eq opps))" .
  moreover have "filter ?ok (filter ?eq opps) = (if MIN_MATCH_SCORE \<le> k then filter ?eq opps else [])"
    by (induction opps) auto
  ultimately show ?thesis by (auto split: if_splits)
qed

lemma find_volunteers_stable:
  "prefix (map volunteer (filter (\<lambda>m. match_score m = k) (find_volunteers opp vs)))
          (filter (\<lambda>v. fst (calculate_compatibility v opp) = k) vs)"
proof -
  let ?ok = "\<lambda>v. MIN_MATCH_SCORE + 0.1 \<le> fst (calculate_compatibility v opp)"
  let ?eq = "\<lambda>v. fst (calculate_compatibility v opp) = k"
  let ?mr = "\<lambda>v. match_result v opp"
  have "prefix (filter (\<lambda>m. match_score m = k) (find_volunteers opp vs))
               (filter (\<lambda>m. match_score m = k) (map ?mr (filter ?ok vs)))"
    unfolding find_volunteers_def Let_def find_volunteers_loop_eq append_Nil by (rule ranked_prefix)
  then have "prefix (map volunteer (filter (\<lambda>m. match_score m = k) (find_volunteers opp vs)))
      (map volunteer (filter (\<lambda>m. match_score m = k) (map ?mr (filter ?ok vs))))"
    by (rule map_mono_prefix)
  also have "map volunteer (filter (\<lambda>m. match_score m = k) (map ?mr (filter ?ok vs)))
      = filter ?eq (filter ?ok vs)"
    by (simp add: filter_map comp_def)
  also have "\<dots> = filter ?ok (filter ?eq vs)" by (simp add: conj_commute)
  finally have "prefix (map volunteer (filter (\<lambda>m. match_score m = k) (find_volunteers opp vs)))
      (filter ?ok (filter ?eq vs))" .
  moreover have "filter ?ok (filter ?eq vs) = (if MIN_MATCH_SCORE + 0.1 \<le> k then filter ?eq vs else [])"
    by (induction vs) auto
  ultimately show ?thesis by (auto split: if_splits)
qed

text \<open>The loops with the scoring method as an argument.\<close>

lemma match_result_by_sel [simp]:
  "volunteer (match_result_by scoring v opp) = v"
  "opportunity (match_result_by scoring v opp) = opp"
  "match_score (match_result_by scoring v opp) = fst (scoring v opp)"
  by (simp_all add: match_result_by_def split: prod.splits)









section \<open>Impact score\<close>

text \<open>
  C1.  The specification's formula caps both base terms, the people term at 0.4 and the
  hours term at 0.3, and multiplies by the table's multiplier for the impact area.
  \<open>_calculate_impact_score\<close> leaves the hours term uncapped, although the utility
  \<open>AgentUtils.calculate_impact_score\<close> caps it, and its area lookup never finds an entry.
  For a healthcare opportunity of medium urgency, nobody impacted, ten hours of quality 1
  and sustainability 0, the code returns 0.5, the specification's formula 0.45, and the
  utility's capped base score is 0.3.
\<close>

theorem impact_score_hours_term_not_capped:
  "calculate_impact_score sample_opportunity sample_outcomes = 1 / 2
   \<and> spec_score_completion sample_opportunity sample_outcomes = 9 / 20
   \<and> AgentUtils_calculate_impact_score 0 10 1 = 3 / 10"
  by (simp add: calculate_impact_score_def spec_score_completion_def
      AgentUtils_calculate_impact_score_def spec_area_multiplier_def
      calculate_urgency_multiplier_def dict_get_def opt_get_def IMPACT_MULTIPLIERS_def
      sample_opportunity_def sample_outcomes_def)

text \<open>
  C2.  Whatever the opportunity and the outcomes, and however large the numbers in the
  outcomes are, the impact score that \<open>_calculate_impact_score\<close> returns is at most 1.0.
\<close>

theorem calculate_impact_score_le_1:
  "calculate_impact_score opp outcomes \<le> 1"
  by (simp add: calculate_impact_score_def Let_def)

text \<open>The extreme inputs of the specification: 10,000 people and 1,000 hours.\<close>

lemma impact_score_extreme_inputs:
  "calculate_impact_score sample_opportunity extreme_outcomes = 1"
  by (simp add: calculate_impact_score_def calculate_urgency_multiplier_def dict_get_def
      opt_get_def IMPACT_MULTIPLIERS_def sample_opportunity_def extreme_outcomes_def)

text \<open>
  C10.  The table \<open>IMPACT_MULTIPLIERS\<close> is keyed by strings and \<open>_calculate_impact_score\<close> looks
  up the enum member, so the lookup finds no entry for any impact area: the area
  multiplier is the default 1.0 and the score does not depend on the impact area.
\<close>

theorem area_multiplier_always_default:
  "map_of IMPACT_MULTIPLIERS (PyImpactArea a) = None
   \<and> area_multiplier opp = 1
   \<and> calculate_impact_score opp outcomes =
       min ((min (opt_get (people_impacted outcomes) 0 * 0.1) 0.4
             + opt_get (hours_contributed outcomes) 0 * opt_get (quality_rating outcomes) 0.5 * 0.05)
            * calculate_urgency_multiplier (opp_urgency opp)
            * (1 + opt_get (sustainability_score outcomes) 0.5)) 1"
  by (simp add: area_multiplier_def calculate_impact_score_def dict_get_def
      IMPACT_MULTIPLIERS_def Let_def)

section \<open>Compatibility\<close>

text \<open>
  C6.  For every volunteer and opportunity, the score and the confidence that
  \<open>_calculate_compatibility\<close> returns lie between 0 and 1, and the confidence is
  \<open>min(score * 1.2, 1.0)\<close>.
\<close>

theorem compatibility_score_confidence_range:
  "0 \<le> fst (calculate_compatibility v opp) \<and> fst (calculate_compatibility v opp) \<le> 1
   \<and> 0 \<le> snd (snd (calculate_compatibility v opp))
   \<and> snd (snd (calculate_compatibility v opp)) \<le> 1
   \<and> snd (snd (calculate_compatibility v opp)) = min (fst (calculate_compatibility v opp) * 1.2) 1.0"
  using weighted_sum_range [of v opp]
  by (simp add: compat_conf compat_score)

text \<open>
  C7.  With the required skills fixed, a volunteer whose skills include those of another
  volunteer has a skill sub-score that is at least as high, for the weights of
  \<open>MatchingAgent\<close> and for those of \<open>SmartMatchingAgent\<close>.  This holds for every list of
  required skills, the non-empty ones in particular.
\<close>

theorem skill_match_monotone:
  assumes "set volunteer_skills \<subseteq> set volunteer_skills'"
  shows "calculate_skill_match MATCHING_WEIGHTS volunteer_skills required_skills
           \<le> calculate_skill_match MATCHING_WEIGHTS volunteer_skills' required_skills
         \<and> calculate_skill_match SMART_SKILL_WEIGHTS volunteer_skills required_skills
           \<le> calculate_skill_match SMART_SKILL_WEIGHTS volunteer_skills' required_skills"
  using assms positive_MATCHING_WEIGHTS positive_SMART_SKILL_WEIGHTS
  by (simp add: skill_match_mono)

theorem skill_match_monotone_witness:
  "set [''medical''] \<subseteq> set [''medical'', ''leadership'']
   \<and> calculate_skill_match SMART_SKILL_WEIGHTS [''medical''] [''medical'', ''leadership'', ''cooking'']
       = 13 / 35
   \<and> calculate_skill_match SMART_SKILL_WEIGHTS [''medical'', ''leadership'']
       [''medical'', ''leadership'', ''cooking''] = 5 / 7
   \<and> calculate_skill_match MATCHING_WEIGHTS [''medical''] [''medical'', ''leadership'', ''cooking'']
       \<le> calculate_skill_match MATCHING_WEIGHTS [''medical'', ''leadership'']
            [''medical'', ''leadership'', ''cooking'']"
proof -
  have sub: "set [''medical''] \<subseteq> set [''medical'', ''leadership'']" by simp
  have "calculate_skill_match SMART_SKILL_WEIGHTS [''medical''] [''medical'', ''leadership'', ''cooking'']
      = 13 / 35"
    by (simp add: skill_match_eval dict_get_def SMART_SKILL_WEIGHTS_def)
  moreover have "calculate_skill_match SMART_SKILL_WEIGHTS [''medical'', ''leadership'']
      [''medical'', ''leadership'', ''cooking''] = 5 / 7"
    by (simp add: skill_match_eval dict_get_def SMART_SKILL_WEIGHTS_def)
  ultimately show ?thesis
    using sub skill_match_monotone [OF sub, of "[''medical'', ''leadership'', ''cooking'']"]
    by simp
qed

text \<open>
  C5.  The specification compares the two locations without regard to letter case, and
  so do the other comparisons of locations in the code, \<open>_calculate_proximity\<close> and
  \<open>LocationService.calculate_distance\<close>, which lower-case both sides.  The compatibility
  calculation compares with \<open>==\<close>: for a volunteer in \<open>metro city\<close> and an opportunity in
  \<open>Metro City\<close>, which the two other comparisons take for the same place, the location
  sub-score is 0.3 and not 1.0, and the pair scores 0.3 in all.
\<close>

theorem location_case_counterexample:
  "lower (vol_location sample_volunteer_lower) = lower (opp_location sample_opportunity)
   \<and> calculate_proximity (vol_location sample_volunteer_lower) (opp_location sample_opportunity) = 0
   \<and> calculate_distance (vol_location sample_volunteer_lower) (opp_location sample_opportunity) = 0
   \<and> location_score sample_volunteer_lower sample_opportunity = 3 / 10
   \<and> location_score sample_volunteer_lower sample_opportunity \<noteq> 1
   \<and> fst (calculate_compatibility sample_volunteer_lower sample_opportunity) = 3 / 10"
proof -
  have "lower ''metro city'' = lower ''Metro City''" by code_simp
  moreover have "fst (calculate_compatibility sample_volunteer_lower sample_opportunity) = 3 / 10"
    by (simp add: compat_score weighted_sum_def skill_match_eval location_score_def
      interest_score_def calculate_experience_score_def calculate_availability_match_def
      dict_get_def sample_volunteer_def sample_opportunity_def sample_volunteer_lower_def)
  ultimately show ?thesis
    by (simp add: location_score_def calculate_proximity_def calculate_distance_def
        sample_volunteer_def sample_opportunity_def sample_volunteer_lower_def)
qed

text \<open>
  What the compatibility calculation computes for the location: the sub-score is 1.0
  exactly when the two strings are equal character by character; it enters the score
  with weight 0.2, and the reasoning lists a perfect location match in that case only.
\<close>

lemma location_score_exact_equality:
  "location_score v opp = (if vol_location v = opp_location opp then 1.0 else 0.3)
   \<and> fst (calculate_compatibility v opp) =
       calculate_skill_match MATCHING_WEIGHTS (vol_skills v) (opp_required_skills opp) * 0.4
       + (if vol_location v = opp_location opp then 1.0 else 0.3) * 0.2
       + interest_score v opp * 0.15 + 0.1
       + calculate_experience_score (vol_experience_level v) * 0.1
       + calculate_availability_match (vol_availability v) (opp_timeframe opp) * 0.05
   \<and> (''Perfect location match'' \<in> set (fst (snd (calculate_compatibility v opp))))
       = (vol_location v = opp_location opp)"
proof -
  have "(''Perfect location match'' \<in> set (fst (snd (calculate_compatibility v opp))))
       = (vol_location v = opp_location opp)"
    by (simp add: calculate_compatibility_def Let_def)
  then show ?thesis
    by (simp add: compat_score weighted_sum_def location_score_def)
qed

section \<open>Ranking\<close>




text \<open>
  C4.  \<open>find_matches\<close> returns at most five results, in descending order of score;
  \<open>find_volunteers\<close> returns at most \<open>volunteers_needed\<close> results (a count that is not
  negative), in descending order of score.  In both, the results that have one and the
  same score \<open>k\<close> come in the order of the input list: they are the first of the input's
  entries that score \<open>k\<close>.
\<close>

theorem ranking_bounded_sorted_stable:
  "length (find_matches v opportunities) \<le> 5
   \<and> sorted_wrt (\<lambda>a b. match_score a \<ge> match_score b) (find_matches v opportunities)
   \<and> prefix (map opportunity (filter (\<lambda>m. match_score m = k) (find_matches v opportunities)))
        (filter (\<lambda>opp. fst (calculate_compatibility v opp) = k) opportunities)
   \<and> (0 \<le> opp_volunteers_needed opp' \<longrightarrow>
        int (length (find_volunteers opp' volunteers)) \<le> opp_volunteers_needed opp')
   \<and> sorted_wrt (\<lambda>a b. match_score a \<ge> match_score b) (find_volunteers opp' volunteers)
   \<and> prefix (map volunteer (filter (\<lambda>m. match_score m = k') (find_volunteers opp' volunteers)))
        (filter (\<lambda>v. fst (calculate_compatibility v opp') = k') volunteers)"
proof -
  have "int (length (find_matches v opportunities)) \<le> 5"
    unfolding find_matches_def Let_def MAX_RECOMMENDATIONS_def
    by (rule length_py_slice_to) simp
  then have 1: "length (find_matches v opportunities) \<le> 5" by simp
  have 2: "sorted_wrt (\<lambda>a b. match_score a \<ge> match_score b) (find_matches v opportunities)"
    unfolding find_matches_def Let_def
    by (rule sorted_py_slice_to) (rule sorted_py_sort_reverse)
  have 3: "int (length (find_volunteers opp' volunteers)) \<le> opp_volunteers_needed opp'"
    if "0 \<le> opp_volunteers_needed opp'"
    unfolding find_volunteers_def Let_def using that by (rule length_py_slice_to)
  have 4: "sorted_wrt (\<lambda>a b. match_score a \<ge> match_score b) (find_volunteers opp' volunteers)"
    unfolding find_volunteers_def Let_def
    by (rule sorted_py_slice_to) (rule sorted_py_sort_reverse)
  show ?thesis
    using 1 2 3 4 find_matches_stable [of k v opportunities]
      find_volunteers_stable [of k' opp' volunteers]
    by blast
qed

theorem ranking_bounded_sorted_stable_witness:
  "0 \<le> opp_volunteers_needed sample_opportunity_b
   \<and> find_volunteers sample_opportunity_b [sample_volunteer_lower, sample_volunteer]
       = [match_result sample_volunteer_lower sample_opportunity_b,
          match_result sample_volunteer sample_opportunity_b]
   \<and> int (length (find_volunteers sample_opportunity_b [sample_volunteer_lower, sample_volunteer]))
       \<le> opp_volunteers_needed sample_opportunity_b
   \<and> sorted_wrt (\<lambda>a b. match_score a \<ge> match_score b)
       (find_volunteers sample_opportunity_b [sample_volunteer_lower, sample_volunteer])"
proof -
  have n: "0 \<le> opp_volunteers_needed sample_opportunity_b"
    by (simp add: sample_opportunity_b_def sample_opportunity_def)
  have s: "fst (calculate_compatibility sample_volunteer_lower sample_opportunity_b) = 4 / 10"
    by (simp add: compat_score weighted_sum_def skill_match_eval location_score_def
      interest_score_def calculate_experience_score_def calculate_availability_match_def
      dict_get_def sample_volunteer_def sample_opportunity_def sample_opportunity_b_def
      sample_volunteer_lower_def MATCHING_WEIGHTS_def)
  have e: "find_volunteers sample_opportunity_b [sample_volunteer_lower, sample_volunteer]
       = [match_result sample_volunteer_lower sample_opportunity_b,
          match_result sample_volunteer sample_opportunity_b]"
    by (simp add: find_volunteers_def find_volunteers_loop_eq py_sort_reverse_def
        py_slice_to_def MIN_MATCH_SCORE_def s sample_score_b)
       (simp add: sample_opportunity_b_def sample_opportunity_def)
  show ?thesis
    using n e
      ranking_bounded_sorted_stable [of sample_volunteer "[]" 0 sample_opportunity_b
        "[sample_volunteer_lower, sample_volunteer]" 0]
    by simp
qed

section \<open>Allocation\<close>

lemma expected_impact_returns:
  "\<exists>r. calculate_expected_impact opp volunteers = Inr r"
  by (simp add: calculate_expected_impact_def py_truediv_def Let_def)

lemma expected_impact_empty: "calculate_expected_impact opp [] = Inr 0"
  by (simp add: calculate_expected_impact_def Let_def)

lemma assign_volunteers_raises:
  "assign_volunteers opp ms = (if ms = [] then Inr [] else Inl AttributeError)"
  by (cases ms) (simp_all add: assign_role_def)

lemma length_sorted_volunteers:
  "0 \<le> opp_volunteers_needed opp \<Longrightarrow>
     int (length (py_slice_to (opp_volunteers_needed opp) (py_sort_reverse match_score volunteers)))
       \<le> opp_volunteers_needed opp"
  by (rule length_py_slice_to)

text \<open>
  C8.  \<open>allocate_resources\<close> selects at most \<open>volunteers_needed\<close> candidates, and the expected
  impact that it computes for an empty candidate list is 0.0, but it does not return: on
  every input it raises \<open>AttributeError\<close>, at \<open>_assign_role\<close> when a candidate is selected
  and at \<open>_calculate_efficiency\<close> otherwise, the empty candidate list included.
\<close>

theorem allocate_resources_raises:
  "allocate_resources opp volunteers = Inl AttributeError
   \<and> allocate_resources sample_opportunity [] = Inl AttributeError
   \<and> calculate_expected_impact sample_opportunity [] = Inr 0"
proof -
  have "allocate_resources opp' ms = Inl AttributeError" for opp' ms
  proof -
    let ?sorted = "py_slice_to (opp_volunteers_needed opp') (py_sort_reverse match_score ms)"
    show ?thesis
    proof (cases "?sorted = []")
      case True
      then show ?thesis
        by (simp add: allocate_resources_def Let_def assign_volunteers_raises
            expected_impact_empty calculate_efficiency_def)
    next
      case False
      then show ?thesis
        by (simp add: allocate_resources_def Let_def assign_volunteers_raises)
    qed
  qed
  then show ?thesis by (simp add: expected_impact_empty)
qed

section \<open>Recording a completion\<close>


text \<open>What a call of \<open>record_completion\<close> does to the agent, for both agents.\<close>

lemma record_completion_effect:
  "completed_projects (snd (record_completion now1 now2 self v opp outcomes))
     = completed_projects self @ [fst (record_completion now1 now2 self v opp outcomes)]
   \<and> cr_impact_score (fst (record_completion now1 now2 self v opp outcomes))
       = calculate_impact_score opp outcomes
   \<and> fst (record_completion now1 now2 self v opp outcomes)
       = fst (record_completion now1 now2 self' v opp outcomes)
   \<and> projects_completed (snd (tracking_record_completion now tracker v opp outcomes))
       = projects_completed tracker + 1
   \<and> total_impact_score (snd (tracking_record_completion now tracker v opp outcomes))
       = total_impact_score tracker + tracking_calculate_impact_score opp outcomes
   \<and> volunteer_hours_logged (snd (tracking_record_completion now tracker v opp outcomes))
       = volunteer_hours_logged tracker + opt_get (hours_contributed outcomes) 0
   \<and> tr_impact_score (fst (tracking_record_completion now tracker v opp outcomes))
       = tracking_calculate_impact_score opp outcomes"
  by (simp add: record_completion_def tracking_record_completion_def Let_def)

subsection \<open>The calls on the heap\<close>



















end
